theory Spec2Isabelle
  imports Main "HOL-Library.Sublist"
begin

section \<open>The Global Economy client: data\<close>

text \<open>
  The client of \<^verbatim>\<open>src/client.py\<close> is one Python class. Its methods are embedded as HOL
  functions over the values the methods really handle:
  \<^item> a Python \<^verbatim>\<open>str\<close> is a \<open>string\<close>, one \<open>char\<close> for one code point;
  \<^item> a raised exception is a value of \<open>py_error\<close>, and a method that may hand one to its
    caller returns \<open>py_error + 'a\<close> (\<open>Inl\<close> is the raise);
  \<^item> every \<^verbatim>\<open>print\<close> is a line appended to a log that the method returns next to its
    result;
  \<^item> a Python \<^verbatim>\<open>set\<close> of strings is a list without repetition, in insertion order;
    the order in which CPython walks a set is not fixed by the language, so it is a
    parameter of the environment (\<open>set_iter\<close>).
\<close>

datatype py_error =
    TypeError | KeyError | ValueError | AttributeError | OverflowError
  | ReError | ExpatError
  | HTTPError | ConnectionError | Timeout | ConnectTimeout | RequestException
  | KeyboardInterrupt

text \<open>
  A printed line: either fixed text, or a prefix followed by the text of the caught
  exception and a blank, as in \<^verbatim>\<open>print('Error: {} '.format(error))\<close>.
\<close>

datatype log_line = Print string | PrintErr string py_error

type_synonym log = "log_line list"

text \<open>\<^verbatim>\<open>class Frequency(Enum): annual = 1; monthly = 2\<close>\<close>

datatype Frequency = annual | monthly

fun frequency_value :: "Frequency \<Rightarrow> int" where
  "frequency_value annual = 1"
| "frequency_value monthly = 2"

text \<open>
  The values of a parsed response: \<^verbatim>\<open>None\<close>, text, lists and mappings (pairs of key and
  value, the first pair of a key counting), and integers, for the default month 1 that
  the conversion passes to \<^verbatim>\<open>get\<close>.
\<close>

datatype pyval =
    PNone | PInt int | PStr string | PList "pyval list" | PDict "(string \<times> pyval) list"

text \<open>
  What the program reads from the world outside the repository. The functions stand
  for library calls whose tables or engines are not part of the source:
  \<^item> \<open>alpha_2_of c\<close> is \<^verbatim>\<open>pycountry.countries.get(alpha_3=c).alpha_2\<close> and
    \<open>alpha_3_of c\<close> is \<^verbatim>\<open>pycountry.countries.get(alpha_2=c).alpha_3\<close>; \<open>Inl\<close> is the
    exception of a failed lookup (the attribute access on \<^verbatim>\<open>None\<close>, or the library's
    own error);
  \<^item> \<open>now_year\<close> is \<^verbatim>\<open>datetime.now().year\<close>;
  \<^item> \<open>set_iter\<close> is the order in which a set is iterated;
  \<^item> \<open>re_other\<close> is the regular-expression engine on patterns that use more than
    literal characters and \<^verbatim>\<open>|\<close>;
  \<^item> \<open>requests_get\<close> is \<^verbatim>\<open>requests.get(uri, timeout=timeout)\<close>, giving the status
    code and the body, or the exception raised;
  \<^item> \<open>fromstring_ok\<close> says whether \<^verbatim>\<open>ElementTree.fromstring\<close> accepts the body, and
    \<open>xmltodict_parse\<close> is \<^verbatim>\<open>xmltodict.parse\<close>.
\<close>

record env =
  alpha_2_of :: "string \<Rightarrow> py_error + string"
  alpha_3_of :: "string \<Rightarrow> py_error + string"
  now_year :: int
  set_iter :: "string list \<Rightarrow> string list"
  re_other :: "string \<Rightarrow> py_error + (string \<Rightarrow> bool)"
  requests_get :: "string option \<Rightarrow> py_error + (nat \<times> string)"
  fromstring_ok :: "string \<Rightarrow> bool"
  xmltodict_parse :: "string \<Rightarrow> py_error + pyval"

section \<open>Country code translators\<close>

text \<open>\<^verbatim>\<open>codes.add(x)\<close> on a set kept as a repetition-free list.\<close>

definition set_add :: "'a \<Rightarrow> 'a list \<Rightarrow> 'a list" where
  "set_add x xs = (if x \<in> set xs then xs else xs @ [x])"

text \<open>
  The loop of \<^verbatim>\<open>getAlpha2Codes\<close>, with the set and the log built so far. A code of
  length 2 is added as it is; a code of length 3 is looked up, and a failed lookup is
  caught by the \<^verbatim>\<open>except BaseException\<close> of the loop body and printed; any other
  length falls through both tests.
\<close>

fun getAlpha2Codes_loop :: "env \<Rightarrow> string list \<Rightarrow> string list \<Rightarrow> log \<Rightarrow> string list \<times> log" where
  "getAlpha2Codes_loop w [] codes lg = (codes, lg)"
| "getAlpha2Codes_loop w (iso_code # rest) codes lg =
     (if length iso_code = 2 then getAlpha2Codes_loop w rest (set_add iso_code codes) lg
      else if length iso_code = 3 then
        (case alpha_2_of w iso_code of
           Inr a2 \<Rightarrow> getAlpha2Codes_loop w rest (set_add a2 codes) lg
         | Inl error \<Rightarrow> getAlpha2Codes_loop w rest codes (lg @ [PrintErr ''Error: '' error]))
      else getAlpha2Codes_loop w rest codes lg)"

definition getAlpha2Codes :: "env \<Rightarrow> string list \<Rightarrow> (py_error + string list) \<times> log" where
  "getAlpha2Codes w iso_codes =
     (case getAlpha2Codes_loop w iso_codes [] [] of (codes, lg) \<Rightarrow> (Inr codes, lg))"

fun getAlpha3Codes_loop :: "env \<Rightarrow> string list \<Rightarrow> string list \<Rightarrow> log \<Rightarrow> string list \<times> log" where
  "getAlpha3Codes_loop w [] codes lg = (codes, lg)"
| "getAlpha3Codes_loop w (iso_code # rest) codes lg =
     (if length iso_code = 3 then getAlpha3Codes_loop w rest (set_add iso_code codes) lg
      else if length iso_code = 2 then
        (case alpha_3_of w iso_code of
           Inr a3 \<Rightarrow> getAlpha3Codes_loop w rest (set_add a3 codes) lg
         | Inl error \<Rightarrow> getAlpha3Codes_loop w rest codes (lg @ [PrintErr ''Error: '' error]))
      else getAlpha3Codes_loop w rest codes lg)"

definition getAlpha3Codes :: "env \<Rightarrow> string list \<Rightarrow> (py_error + string list) \<times> log" where
  "getAlpha3Codes w iso_codes =
     (case getAlpha3Codes_loop w iso_codes [] [] of (codes, lg) \<Rightarrow> (Inr codes, lg))"

text \<open>The exception of an outcome, as a list: empty when the call returned.\<close>

definition raised :: "py_error + 'a \<Rightarrow> py_error list" where
  "raised r = (case r of Inl e \<Rightarrow> [e] | Inr v \<Rightarrow> [])"

section \<open>The client and its lookup tables\<close>

text \<open>
  The fields the constructor sets. \<open>root\<close>, \<open>uid\<close> and \<open>uidc\<close> are the request root and
  the two credentials (a YAML scalar: a number or text); \<open>lut_api\<close> is the country
  table \<^verbatim>\<open>self._lut['api']\<close> with its columns \<^verbatim>\<open>code\<close> and \<^verbatim>\<open>id\<close>; \<open>lut_annual\<close> and
  \<open>lut_monthly\<close> are the indicator tables \<^verbatim>\<open>self._lut['annual']\<close> and
  \<^verbatim>\<open>self._lut['monthly']\<close> with their columns \<^verbatim>\<open>index\<close> and \<^verbatim>\<open>name\<close>. The tables are
  read from CSV files that are not part of the source, so they are arbitrary lists of
  rows here.
\<close>

datatype scalar = SInt int | SStr string

record client =
  root :: string
  uid :: scalar
  uidc :: scalar
  lut_api :: "(string \<times> int) list"
  lut_annual :: "(int \<times> string) list"
  lut_monthly :: "(int \<times> string) list"

text \<open>\<^verbatim>\<open>self._lut[frequency.name]\<close>, the table stored under the name of the frequency.\<close>

fun lut :: "client \<Rightarrow> Frequency \<Rightarrow> (int \<times> string) list" where
  "lut self annual = lut_annual self"
| "lut self monthly = lut_monthly self"

subsection \<open>Indicator names to indexes\<close>

text \<open>
  \<^verbatim>\<open>rows = table[table['name'] == name]\<close> keeps the rows whose name equals the given
  one; \<^verbatim>\<open>rows['index'].iloc[0]\<close> is read only when there is exactly one row.
\<close>

fun getIndicatorIndexes_loop ::
  "(int \<times> string) list \<Rightarrow> string list \<Rightarrow> int list \<Rightarrow> log \<Rightarrow> int list \<times> log" where
  "getIndicatorIndexes_loop tbl [] idxs lg = (idxs, lg)"
| "getIndicatorIndexes_loop tbl (name # rest) idxs lg =
     (let rows = filter (\<lambda>r. snd r = name) tbl in
      if length rows = 1
      then getIndicatorIndexes_loop tbl rest (idxs @ [fst (rows ! 0)]) lg
      else getIndicatorIndexes_loop tbl rest idxs
             (lg @ [Print (''Indicator name not found / duplicated: '' @ name)]))"

definition getIndicatorIndexes ::
  "client \<Rightarrow> Frequency \<Rightarrow> string list \<Rightarrow> (py_error + int list) \<times> log" where
  "getIndicatorIndexes self frequency names =
     (case getIndicatorIndexes_loop (lut self frequency) names [] [] of
        (idxs, lg) \<Rightarrow> (Inr idxs, lg))"

section \<open>Building the request URI\<close>

subsection \<open>Text of numbers, joining\<close>

definition digit_char :: "nat \<Rightarrow> char" where
  "digit_char d = ''0123456789'' ! d"

fun str_nat :: "nat \<Rightarrow> string" where
  "str_nat n = (if n < 10 then [digit_char n] else str_nat (n div 10) @ [digit_char (n mod 10)])"

declare str_nat.simps [simp del]

text \<open>\<^verbatim>\<open>str(i)\<close> for an integer.\<close>

definition str_int :: "int \<Rightarrow> string" where
  "str_int i = (if i < 0 then CHR ''-'' # str_nat (nat (- i)) else str_nat (nat i))"

fun str_scalar :: "scalar \<Rightarrow> string" where
  "str_scalar (SInt i) = str_int i"
| "str_scalar (SStr s) = s"

text \<open>\<^verbatim>\<open>sep.join(parts)\<close>\<close>

fun join :: "string \<Rightarrow> string list \<Rightarrow> string" where
  "join sep [] = []"
| "join sep [x] = x"
| "join sep (x # y # ys) = x @ sep @ join sep (y # ys)"

subsection \<open>The pattern search of the country table\<close>

text \<open>
  \<^verbatim>\<open>Series.str.contains(pat)\<close> compiles \<open>pat\<close> as a regular expression and searches each
  cell. A pattern made only of literal characters and \<^verbatim>\<open>|\<close> is an alternation of literal
  strings: it is found in a cell when one of the alternatives is a contiguous part of
  the cell (the empty alternative is found everywhere). Every other pattern is left to
  the engine \<open>re_other\<close>, which may also reject it (\<^verbatim>\<open>re.error\<close>).
\<close>

definition re_special :: "char \<Rightarrow> bool" where
  "re_special c = (c \<in> set (CHR 0x5C # ''.^$*+?{}[]|()''))"

fun split_on :: "char \<Rightarrow> string \<Rightarrow> string list" where
  "split_on sep [] = [[]]"
| "split_on sep (c # cs) =
     (if c = sep then [] # split_on sep cs
      else (case split_on sep cs of [] \<Rightarrow> [[c]] | p # ps \<Rightarrow> (c # p) # ps))"

definition re_compile :: "env \<Rightarrow> string \<Rightarrow> py_error + (string \<Rightarrow> bool)" where
  "re_compile w pat =
     (if \<forall>c \<in> set pat. c = CHR ''|'' \<or> \<not> re_special c
      then Inr (\<lambda>cell. \<exists>alt \<in> set (split_on (CHR ''|'') pat). sublist alt cell)
      else re_other w pat)"

subsection \<open>getUri\<close>

text \<open>
  The keyword arguments \<^verbatim>\<open>getUri\<close> reads; \<open>None\<close> is an argument that was not given.
\<close>

record options =
  period :: "string option"
  start_year :: "int option"
  end_year :: "int option"
  indicators :: "string list option"
  indexes :: "int list option"

text \<open>
  The variable \<^verbatim>\<open>codes\<close> holds a set of 2-letter codes for an annual request and the
  list of the selected \<^verbatim>\<open>id\<close> cells for a monthly one.
\<close>

datatype codes = CodeSet "string list" | IdList "int list"

fun len_codes :: "codes \<Rightarrow> nat" where
  "len_codes (CodeSet cs) = length cs"
| "len_codes (IdList ids) = length ids"

text \<open>\<^verbatim>\<open>[str(code) for code in codes]\<close>, in the order of iteration.\<close>

fun str_codes :: "env \<Rightarrow> codes \<Rightarrow> string list" where
  "str_codes w (CodeSet cs) = set_iter w cs"
| "str_codes w (IdList ids) = map str_int ids"

text \<open>The period string: the given one, or \<^verbatim>\<open>f'{start_year}:{end_year}'\<close>.\<close>

definition period_string :: "env \<Rightarrow> options \<Rightarrow> string" where
  "period_string w kw =
     (case period kw of
        Some p \<Rightarrow> p
      | None \<Rightarrow>
          str_int (case start_year kw of Some y \<Rightarrow> y | None \<Rightarrow> 1960) @ '':'' @
          str_int (case end_year kw of Some y \<Rightarrow> y | None \<Rightarrow> now_year w))"

text \<open>
  The codes of the request. For a monthly request the 3-letter codes are joined with
  \<^verbatim>\<open>|\<close> into one pattern and the rows of the country table whose \<^verbatim>\<open>code\<close> cell the pattern
  is found in are kept; a pattern the engine rejects raises out of \<^verbatim>\<open>getUri\<close>.
\<close>

definition country_codes ::
  "env \<Rightarrow> client \<Rightarrow> Frequency \<Rightarrow> string list \<Rightarrow> (py_error + codes) \<times> log" where
  "country_codes w self frequency iso_codes =
     (case frequency of
        annual \<Rightarrow>
          (case getAlpha2Codes w iso_codes of
             (Inl e, lg) \<Rightarrow> (Inl e, lg)
           | (Inr cs, lg) \<Rightarrow> (Inr (CodeSet cs), lg))
      | monthly \<Rightarrow>
          (case getAlpha3Codes w iso_codes of
             (Inl e, lg) \<Rightarrow> (Inl e, lg)
           | (Inr alpha3_codes, lg) \<Rightarrow>
               (case re_compile w (join ''|'' (set_iter w alpha3_codes)) of
                  Inl e \<Rightarrow> (Inl e, lg)
                | Inr found \<Rightarrow>
                    (Inr (IdList (map snd (filter (\<lambda>r. found (fst r)) (lut_api self)))), lg))))"

text \<open>
  The indexes of the request: the names win when both names and indexes are given;
  with neither, \<^verbatim>\<open>indexes\<close> stays \<^verbatim>\<open>None\<close>.
\<close>

definition indicator_indexes ::
  "client \<Rightarrow> Frequency \<Rightarrow> options \<Rightarrow> (py_error + int list option) \<times> log" where
  "indicator_indexes self frequency kw =
     (case indicators kw of
        Some names \<Rightarrow>
          (case getIndicatorIndexes self frequency names of
             (Inl e, lg) \<Rightarrow> (Inl e, lg)
           | (Inr idxs, lg) \<Rightarrow> (Inr (Some idxs), lg))
      | None \<Rightarrow> (Inr (indexes kw), []))"

definition format_uri ::
  "env \<Rightarrow> client \<Rightarrow> Frequency \<Rightarrow> int list \<Rightarrow> codes \<Rightarrow> string \<Rightarrow> string" where
  "format_uri w self frequency idxs cds prd =
     root self @ ''?tp='' @ str_int (frequency_value frequency) @
     ''&ind='' @ join '','' (map str_int idxs) @
     ''&cnt='' @ join '','' (str_codes w cds) @
     ''&prd='' @ prd @
     ''&uid='' @ str_scalar (uid self) @
     ''&uidc='' @ str_scalar (uidc self)"

text \<open>
  \<^verbatim>\<open>len(codes) > 0 and len(indexes) > 0\<close>: the right operand is evaluated only when the
  left one is true, and \<^verbatim>\<open>len(None)\<close> raises \<^verbatim>\<open>TypeError\<close>.
\<close>

definition getUri ::
  "env \<Rightarrow> client \<Rightarrow> string list \<Rightarrow> Frequency \<Rightarrow> options \<Rightarrow> (py_error + string option) \<times> log" where
  "getUri w self iso_codes frequency kw =
     (let prd = period_string w kw in
      case country_codes w self frequency iso_codes of
        (Inl e, lg1) \<Rightarrow> (Inl e, lg1)
      | (Inr cds, lg1) \<Rightarrow>
          (case indicator_indexes self frequency kw of
             (Inl e, lg2) \<Rightarrow> (Inl e, lg1 @ lg2)
           | (Inr idxs, lg2) \<Rightarrow>
               if 0 < len_codes cds then
                 (case idxs of
                    None \<Rightarrow> (Inl TypeError, lg1 @ lg2)
                  | Some ix \<Rightarrow>
                      if 0 < length ix
                      then (Inr (Some (format_uri w self frequency ix cds prd)), lg1 @ lg2)
                      else (Inr None, lg1 @ lg2 @ [Print ''Invalid indicator arguments'']))
               else (Inr None, lg1 @ lg2 @ [Print ''Invalid indicator arguments''])))"

section \<open>The request\<close>

text \<open>\<^verbatim>\<open>response.raise_for_status()\<close> raises for the status codes 400 to 599.\<close>

definition raise_for_status :: "nat \<times> string \<Rightarrow> py_error + unit" where
  "raise_for_status response =
     (if 400 \<le> fst response \<and> fst response < 600 then Inl HTTPError else Inr ())"

text \<open>
  \<^verbatim>\<open>isXml\<close> catches the parse error of \<^verbatim>\<open>ElementTree.fromstring\<close> and answers with a
  Boolean.
\<close>

definition isXml :: "env \<Rightarrow> string \<Rightarrow> bool" where
  "isXml w content = fromstring_ok w content"

text \<open>The body of the \<^verbatim>\<open>try\<close> block: the value assigned to \<^verbatim>\<open>data\<close>, or the raise.\<close>

definition postRequest_try :: "env \<Rightarrow> string option \<Rightarrow> py_error + pyval option" where
  "postRequest_try w uri =
     (case requests_get w uri of
        Inl e \<Rightarrow> Inl e
      | Inr response \<Rightarrow>
          (case raise_for_status response of
             Inl e \<Rightarrow> Inl e
           | Inr _ \<Rightarrow>
               if isXml w (snd response)
               then (case xmltodict_parse w (snd response) of
                       Inl e \<Rightarrow> Inl e
                     | Inr d \<Rightarrow> Inr (Some d))
               else Inr None))"

text \<open>
  The \<^verbatim>\<open>except\<close> clauses in their order: the first clause whose class the exception
  belongs to prints. \<^verbatim>\<open>ConnectTimeout\<close> is both a \<^verbatim>\<open>ConnectionError\<close> and a \<^verbatim>\<open>Timeout\<close>,
  and the last clause, \<^verbatim>\<open>BaseException\<close>, takes everything else.
\<close>

fun except_clause :: "py_error \<Rightarrow> string" where
  "except_clause HTTPError = ''Http Error: ''"
| "except_clause ConnectionError = ''Connection Error: ''"
| "except_clause ConnectTimeout = ''Connection Error: ''"
| "except_clause Timeout = ''Timeout Error: ''"
| "except_clause RequestException = ''Request Error: ''"
| "except_clause e = ''General Error: ''"

definition postRequest :: "env \<Rightarrow> string option \<Rightarrow> (py_error + pyval option) \<times> log" where
  "postRequest w uri =
     (case postRequest_try w uri of
        Inr data \<Rightarrow> (Inr data, [])
      | Inl error \<Rightarrow> (Inr None, [PrintErr (except_clause error) error]))"

section \<open>From the parsed response to rows\<close>

subsection \<open>Python operations on the parsed values\<close>

text \<open>\<^verbatim>\<open>v[key]\<close> with a string key.\<close>

fun subscript :: "pyval \<Rightarrow> string \<Rightarrow> py_error + pyval" where
  "subscript (PDict kvs) k = (case map_of kvs k of Some v \<Rightarrow> Inr v | None \<Rightarrow> Inl KeyError)"
| "subscript v k = Inl TypeError"

text \<open>\<^verbatim>\<open>v.get(key, default)\<close>: only a mapping has the method.\<close>

fun py_get :: "pyval \<Rightarrow> string \<Rightarrow> pyval \<Rightarrow> py_error + pyval" where
  "py_get (PDict kvs) k d = Inr (case map_of kvs k of Some v \<Rightarrow> v | None \<Rightarrow> d)"
| "py_get v k d = Inl AttributeError"

text \<open>
  \<^verbatim>\<open>key in v\<close>: a key of a mapping, an item of a list, a part of a string; \<^verbatim>\<open>None\<close> and
  numbers are not containers.
\<close>

fun py_in :: "string \<Rightarrow> pyval \<Rightarrow> py_error + bool" where
  "py_in k (PDict kvs) = Inr (k \<in> fst ` set kvs)"
| "py_in k (PList xs) = Inr (PStr k \<in> set xs)"
| "py_in k (PStr s) = Inr (sublist k s)"
| "py_in k v = Inl TypeError"

text \<open>\<^verbatim>\<open>v if isinstance(v, list) else [v]\<close>\<close>

fun as_list :: "pyval \<Rightarrow> pyval list" where
  "as_list (PList xs) = xs"
| "as_list v = [v]"

text \<open>
  \<^verbatim>\<open>int(v)\<close>: a number is itself; a string is stripped of white space and read as an
  optional sign and decimal digits, which single underscores may separate; anything
  else of a string is a \<^verbatim>\<open>ValueError\<close>, and \<^verbatim>\<open>None\<close>, lists and mappings are a
  \<^verbatim>\<open>TypeError\<close>.
\<close>

definition is_space :: "char \<Rightarrow> bool" where
  "is_space c = (c \<in> set [CHR 0x20, CHR 0x09, CHR 0x0A, CHR 0x0B, CHR 0x0C, CHR 0x0D,
                          CHR 0x1C, CHR 0x1D, CHR 0x1E, CHR 0x1F, CHR 0x85, CHR 0xA0])"

definition strip :: "string \<Rightarrow> string" where
  "strip s = rev (dropWhile is_space (rev (dropWhile is_space s)))"

definition is_digit :: "char \<Rightarrow> bool" where
  "is_digit c = (c \<in> set ''0123456789'')"

definition digit_value :: "char \<Rightarrow> nat" where
  "digit_value c = of_char c - 48"

fun no_double_underscore :: "string \<Rightarrow> bool" where
  "no_double_underscore (a # b # cs) =
     (\<not> (a = CHR ''_'' \<and> b = CHR ''_'') \<and> no_double_underscore (b # cs))"
| "no_double_underscore cs = True"

definition valid_digits :: "string \<Rightarrow> bool" where
  "valid_digits b =
     (b \<noteq> [] \<and> (\<forall>c \<in> set b. is_digit c \<or> c = CHR ''_'') \<and>
      is_digit (hd b) \<and> is_digit (last b) \<and> no_double_underscore b)"

definition decimal :: "string \<Rightarrow> nat" where
  "decimal ds = foldl (\<lambda>acc c. 10 * acc + digit_value c) 0 ds"

definition int_of_str :: "string \<Rightarrow> py_error + int" where
  "int_of_str s =
     (let t = strip s;
          neg = (t \<noteq> [] \<and> hd t = CHR ''-'');
          b = (if t \<noteq> [] \<and> (hd t = CHR ''-'' \<or> hd t = CHR ''+'') then tl t else t)
      in if valid_digits b
         then Inr ((if neg then - 1 else 1) * int (decimal (filter (\<lambda>c. c \<noteq> CHR ''_'') b)))
         else Inl ValueError)"

fun py_int :: "pyval \<Rightarrow> py_error + int" where
  "py_int (PInt i) = Inr i"
| "py_int (PStr s) = int_of_str s"
| "py_int v = Inl TypeError"

text \<open>
  \<^verbatim>\<open>date(year, month, 1)\<close>: the arguments must fit a C \<^verbatim>\<open>int\<close>, the year must lie in
  1..9999 and the month in 1..12; day 1 exists in every month.
\<close>

definition c_int :: "int \<Rightarrow> bool" where
  "c_int i = (- 2147483648 \<le> i \<and> i \<le> 2147483647)"

definition py_date :: "int \<Rightarrow> int \<Rightarrow> py_error + (int \<times> int \<times> int)" where
  "py_date y m =
     (if \<not> c_int y \<or> \<not> c_int m then Inl OverflowError
      else if y < 1 \<or> 9999 < y then Inl ValueError
      else if m < 1 \<or> 12 < m then Inl ValueError
      else Inr (y, m, 1))"

subsection \<open>convertToDataFrame\<close>

text \<open>One record of the data frame: the keys \<^verbatim>\<open>id\<close>, \<^verbatim>\<open>date\<close>, \<^verbatim>\<open>indicator\<close>, \<^verbatim>\<open>value\<close>.\<close>

record row =
  row_id :: pyval
  row_date :: "int \<times> int \<times> int"
  row_indicator :: pyval
  row_value :: pyval

text \<open>
  The dictionary display inside the \<^verbatim>\<open>try\<close>, evaluated left to right: the first failing
  part decides the exception.
\<close>

definition parse_element :: "pyval \<Rightarrow> pyval \<Rightarrow> py_error + row" where
  "parse_element schema element =
     (case subscript schema ''@id'' of
        Inl e \<Rightarrow> Inl e
      | Inr i \<Rightarrow>
     (case py_get element ''ge:year'' PNone of
        Inl e \<Rightarrow> Inl e
      | Inr yv \<Rightarrow>
     (case py_int yv of
        Inl e \<Rightarrow> Inl e
      | Inr y \<Rightarrow>
     (case py_get element ''ge:month'' (PInt 1) of
        Inl e \<Rightarrow> Inl e
      | Inr mv \<Rightarrow>
     (case py_int mv of
        Inl e \<Rightarrow> Inl e
      | Inr m \<Rightarrow>
     (case py_date y m of
        Inl e \<Rightarrow> Inl e
      | Inr d \<Rightarrow>
     (case subscript element ''ge:indicator'' of
        Inl e \<Rightarrow> Inl e
      | Inr ind \<Rightarrow>
     (case subscript element ''ge:value'' of
        Inl e \<Rightarrow> Inl e
      | Inr v \<Rightarrow>
          Inr \<lparr>row_id = i, row_date = d, row_indicator = ind, row_value = v\<rparr>))))))))"

text \<open>The loop over the elements of one country: a failing element is printed and left out.\<close>

fun elements_loop :: "pyval \<Rightarrow> pyval list \<Rightarrow> row list \<Rightarrow> log \<Rightarrow> row list \<times> log" where
  "elements_loop schema [] records lg = (records, lg)"
| "elements_loop schema (element # rest) records lg =
     (case parse_element schema element of
        Inr r \<Rightarrow> elements_loop schema rest (records @ [r]) lg
      | Inl error \<Rightarrow> elements_loop schema rest records (lg @ [PrintErr ''XML Read Error: '' error]))"

text \<open>
  The loop over the countries. The membership test and the subscript stand outside the
  \<^verbatim>\<open>try\<close>, so their exceptions leave the method; what was printed before stays printed.
\<close>

fun schemas_loop :: "pyval list \<Rightarrow> row list \<Rightarrow> log \<Rightarrow> (py_error + row list) \<times> log" where
  "schemas_loop [] records lg = (Inr records, lg)"
| "schemas_loop (schema # rest) records lg =
     (case py_in ''ge:element'' schema of
        Inl e \<Rightarrow> (Inl e, lg)
      | Inr False \<Rightarrow> schemas_loop rest records lg
      | Inr True \<Rightarrow>
          (case subscript schema ''ge:element'' of
             Inl e \<Rightarrow> (Inl e, lg)
           | Inr els \<Rightarrow>
               (case elements_loop schema (as_list els) records lg of
                  (records', lg') \<Rightarrow> schemas_loop rest records' lg')))"

text \<open>The result is \<^verbatim>\<open>None\<close> when no record was made, else the frame of all records.\<close>

definition convertToDataFrame :: "pyval \<Rightarrow> (py_error + row list option) \<times> log" where
  "convertToDataFrame data =
     (case subscript data ''ge:data'' of
        Inl e \<Rightarrow> (Inl e, [])
      | Inr d \<Rightarrow>
          (case subscript d ''ge:country'' of
             Inl e \<Rightarrow> (Inl e, [])
           | Inr c \<Rightarrow>
               (case schemas_loop (as_list c) [] [] of
                  (Inl e, lg) \<Rightarrow> (Inl e, lg)
                | (Inr records, lg) \<Rightarrow>
                    (Inr (if 0 < length records then Some records else None), lg))))"

section \<open>The bootstrap probe\<close>

text \<open>
  \<^verbatim>\<open>getIndicatorLookup\<close> calls
  \<^verbatim>\<open>self.getUri(frequency, indexes=[idx], countries=['India'], period='latest')\<close>
  while the method is declared \<^verbatim>\<open>getUri(self, iso_codes, frequency, **kwargs)\<close>: the one
  positional argument binds to \<^verbatim>\<open>iso_codes\<close> and the required parameter \<^verbatim>\<open>frequency\<close>
  receives nothing, so Python raises \<^verbatim>\<open>TypeError\<close> at the call, before any statement of
  \<^verbatim>\<open>getUri\<close> runs. The call stands outside the \<^verbatim>\<open>try\<close> of the loop body.
\<close>

definition getUri_without_frequency :: "(py_error + string option) \<times> log" where
  "getUri_without_frequency = (Inl TypeError, [])"

text \<open>
  \<^verbatim>\<open>data['ge:data']['ge:country']['ge:element']['ge:indicator']\<close>, the name the probe
  records. When it cannot be read the loop prints the response and the exception; the
  log line keeps the exception.
\<close>

definition probe_name :: "pyval \<Rightarrow> py_error + pyval" where
  "probe_name data =
     (case subscript data ''ge:data'' of
        Inl e \<Rightarrow> Inl e
      | Inr d \<Rightarrow>
          (case subscript d ''ge:country'' of
             Inl e \<Rightarrow> Inl e
           | Inr c \<Rightarrow>
               (case subscript c ''ge:element'' of
                  Inl e \<Rightarrow> Inl e
                | Inr el \<Rightarrow> subscript el ''ge:indicator'')))"

fun getIndicatorLookup_loop ::
  "env \<Rightarrow> int list \<Rightarrow> (int \<times> pyval) list \<Rightarrow> log \<Rightarrow> (py_error + (int \<times> pyval) list) \<times> log" where
  "getIndicatorLookup_loop w [] tbl lg = (Inr tbl, lg)"
| "getIndicatorLookup_loop w (idx # rest) tbl lg =
     (case getUri_without_frequency of
        (Inl e, lg1) \<Rightarrow> (Inl e, lg @ lg1)
      | (Inr uri, lg1) \<Rightarrow>
          (case postRequest w uri of
             (Inl e, lg2) \<Rightarrow> (Inl e, lg @ lg1 @ lg2)
           | (Inr None, lg2) \<Rightarrow> getIndicatorLookup_loop w rest tbl (lg @ lg1 @ lg2)
           | (Inr (Some data), lg2) \<Rightarrow>
               (case probe_name data of
                  Inr name \<Rightarrow> getIndicatorLookup_loop w rest (tbl @ [(idx, name)]) (lg @ lg1 @ lg2)
                | Inl error \<Rightarrow>
                    getIndicatorLookup_loop w rest tbl
                      (lg @ lg1 @ lg2 @ [PrintErr ''Error: '' error]))))"

text \<open>The indexes probed are \<^verbatim>\<open>range(1, max_index)\<close>.\<close>

definition getIndicatorLookup ::
  "env \<Rightarrow> Frequency \<Rightarrow> int \<Rightarrow> (py_error + (int \<times> pyval) list) \<times> log" where
  "getIndicatorLookup w frequency max_index =
     getIndicatorLookup_loop w [1 .. max_index - 1] [] []"

section \<open>A small world for the examples\<close>

text \<open>
  An environment and a client on which the theorems below are run: India and China in
  the country library, a set walked in insertion order, an engine that rejects every
  pattern beyond literal alternations, and a server that cannot be reached.
\<close>

definition example_lookup :: "(string \<times> string) list \<Rightarrow> string \<Rightarrow> py_error + string" where
  "example_lookup tbl c = (case map_of tbl c of Some a \<Rightarrow> Inr a | None \<Rightarrow> Inl AttributeError)"

definition example_env :: env where
  "example_env =
     \<lparr> alpha_2_of = example_lookup [(''IND'', ''IN''), (''CHN'', ''CN'')],
       alpha_3_of = example_lookup [(''IN'', ''IND''), (''CN'', ''CHN'')],
       now_year = 2026,
       set_iter = (\<lambda>xs. xs),
       re_other = (\<lambda>pat. Inl ReError),
       requests_get = (\<lambda>uri. Inl ConnectionError),
       fromstring_ok = (\<lambda>body. False),
       xmltodict_parse = (\<lambda>body. Inl ExpatError) \<rparr>"

definition example_client :: client where
  "example_client =
     \<lparr> root = ''https://www.theglobaleconomy.com/data_export_api.php'',
       uid = SInt 90902,
       uidc = SStr ''0318f527'',
       lut_api = [(''IND'', 101), (''CHN'', 45), (''IDN'', 102)],
       lut_annual = [(2, ''Exports, percent of GDP''), (5, ''Access to electricity'')],
       lut_monthly = [(7, ''Debt service ratios for private non-financial sector'')] \<rparr>"

definition no_options :: options where
  "no_options =
     \<lparr> period = None, start_year = None, end_year = None, indicators = None, indexes = None \<rparr>"

text \<open>
  The rows of an indicator table that hold a given name, as the comparison
  \<^verbatim>\<open>table['name'] == name\<close> selects them. The statements below speak of these rows.
\<close>

definition matching_rows :: "(int \<times> string) list \<Rightarrow> string \<Rightarrow> (int \<times> string) list" where
  "matching_rows tbl name = filter (\<lambda>r. snd r = name) tbl"


text \<open>
  The example client with a country table in which one \<^verbatim>\<open>code\<close> cell holds the text of
  another inside it.
\<close>

definition substring_client :: client where
  "substring_client =
     example_client \<lparr> lut_api := [(''IND'', 101), (''B-IND'', 250), (''CHN'', 45)] \<rparr>"

text \<open>
  The options of the two end-to-end scenarios; the annual one also passes explicit
  indexes next to the names.
\<close>

definition scenario_monthly :: options where
  "scenario_monthly = no_options
     \<lparr> period := Some ''latest'',
       indicators := Some [''Debt service ratios for private non-financial sector''] \<rparr>"

definition scenario_annual :: options where
  "scenario_annual = no_options
     \<lparr> start_year := Some 1960, end_year := Some 2020,
       indicators := Some [''Exports, percent of GDP'', ''Access to electricity''],
       indexes := Some [99] \<rparr>"

text \<open>
  The example world with a server that answers: a status code, a body, whether the body
  is accepted as XML, and the mapping the body parses to.
\<close>

definition answering_env :: "nat \<Rightarrow> string \<Rightarrow> bool \<Rightarrow> env" where
  "answering_env status body ok =
     example_env \<lparr> requests_get := (\<lambda>uri. Inr (status, body)),
                   fromstring_ok := (\<lambda>b. ok),
                   xmltodict_parse := (\<lambda>b. Inr (PDict [(''a'', PNone)])) \<rparr>"

text \<open>
  Notions for the statements about \<open>convertToDataFrame\<close>: the value of an outcome as a
  list (empty when the call raised), the test for a mapping, and the elements of a
  country entry, none when the entry has no \<^verbatim>\<open>ge:element\<close> key.
\<close>

definition returned :: "py_error + 'a \<Rightarrow> 'a list" where
  "returned r = (case r of Inl e \<Rightarrow> [] | Inr v \<Rightarrow> [v])"

fun is_dict :: "pyval \<Rightarrow> bool" where
  "is_dict (PDict kvs) = True"
| "is_dict v = False"

definition elements_of :: "pyval \<Rightarrow> pyval list" where
  "elements_of schema =
     (case subscript schema ''ge:element'' of Inl e \<Rightarrow> [] | Inr els \<Rightarrow> as_list els)"

text \<open>A parsed response with one country and one element.\<close>

definition one_element_payload :: pyval where
  "one_element_payload =
     PDict [(''ge:data'',
       PDict [(''ge:country'',
         PDict [(''@id'', PStr ''IN''),
                (''ge:element'',
                   PDict [(''ge:year'', PStr ''2020''), (''ge:indicator'', PStr ''Exports''),
                          (''ge:value'', PStr ''18.7'')])])])]"

section \<open>Properties of the country code translators\<close>

lemma set_set_add: "set (set_add x xs) = insert x (set xs)"
  by (auto simp: set_add_def)

lemma distinct_set_add: "distinct xs \<Longrightarrow> distinct (set_add x xs)"
  by (simp add: set_add_def)

lemma getAlpha2Codes_loop_set:
  "set (fst (getAlpha2Codes_loop w cs acc lg)) =
     set acc \<union> {c \<in> set cs. length c = 2} \<union>
     {a. \<exists>c \<in> set cs. length c = 3 \<and> alpha_2_of w c = Inr a}"
  by (induction cs arbitrary: acc lg) (auto simp: set_set_add split: sum.splits)

lemma getAlpha2Codes_loop_distinct:
  "distinct acc \<Longrightarrow> distinct (fst (getAlpha2Codes_loop w cs acc lg))"
  by (induction cs arbitrary: acc lg) (auto simp: distinct_set_add split: sum.splits)

lemma getAlpha2Codes_loop_log:
  "snd (getAlpha2Codes_loop w cs acc lg) =
     lg @ [PrintErr ''Error: '' e. c \<leftarrow> cs, length c = 3, e \<leftarrow> raised (alpha_2_of w c)]"
  by (induction cs arbitrary: acc lg) (auto simp: raised_def split: sum.splits)

lemma getAlpha2Codes_loop_filter:
  "getAlpha2Codes_loop w (filter (\<lambda>c. length c = 2 \<or> length c = 3) cs) acc lg =
   getAlpha2Codes_loop w cs acc lg"
  by (induction cs arbitrary: acc lg) (auto split: sum.splits)

lemma getAlpha3Codes_loop_set:
  "set (fst (getAlpha3Codes_loop w cs acc lg)) =
     set acc \<union> {c \<in> set cs. length c = 3} \<union>
     {a. \<exists>c \<in> set cs. length c = 2 \<and> alpha_3_of w c = Inr a}"
  by (induction cs arbitrary: acc lg) (auto simp: set_set_add split: sum.splits)

lemma getAlpha3Codes_loop_distinct:
  "distinct acc \<Longrightarrow> distinct (fst (getAlpha3Codes_loop w cs acc lg))"
  by (induction cs arbitrary: acc lg) (auto simp: distinct_set_add split: sum.splits)

lemma getAlpha3Codes_loop_log:
  "snd (getAlpha3Codes_loop w cs acc lg) =
     lg @ [PrintErr ''Error: '' e. c \<leftarrow> cs, length c = 2, e \<leftarrow> raised (alpha_3_of w c)]"
  by (induction cs arbitrary: acc lg) (auto simp: raised_def split: sum.splits)

lemma getAlpha3Codes_loop_filter:
  "getAlpha3Codes_loop w (filter (\<lambda>c. length c = 2 \<or> length c = 3) cs) acc lg =
   getAlpha3Codes_loop w cs acc lg"
  by (induction cs arbitrary: acc lg) (auto split: sum.splits)

lemma getAlpha2Codes_eq:
  "getAlpha2Codes w cs =
     (Inr (fst (getAlpha2Codes_loop w cs [] [])),
      [PrintErr ''Error: '' e. c \<leftarrow> cs, length c = 3, e \<leftarrow> raised (alpha_2_of w c)])"
  using getAlpha2Codes_loop_log [of w cs "[]" "[]"]
  by (auto simp: getAlpha2Codes_def split: prod.splits)

lemma getAlpha3Codes_eq:
  "getAlpha3Codes w cs =
     (Inr (fst (getAlpha3Codes_loop w cs [] [])),
      [PrintErr ''Error: '' e. c \<leftarrow> cs, length c = 2, e \<leftarrow> raised (alpha_3_of w c)])"
  using getAlpha3Codes_loop_log [of w cs "[]" "[]"]
  by (auto simp: getAlpha3Codes_def split: prod.splits)

text \<open>
  Claim C10. For every input collection, \<open>getAlpha2Codes\<close> and \<open>getAlpha3Codes\<close> leave out
  every identifier whose length is neither 2 nor 3, print nothing for it and do not
  raise: the result and the log are those of the input without these identifiers, and
  the log holds lines for failed lookups only. \<open>getAlpha2Codes\<close> keeps every 2-letter
  input as it is, and \<open>getAlpha3Codes\<close> every 3-letter input, with no lookup. Where the
  country library answers with 2-letter (3-letter) codes only, no string of another
  length is in the result.
\<close>

theorem translators_skip_other_lengths:
  "getAlpha2Codes w iso_codes =
     getAlpha2Codes w (filter (\<lambda>c. length c = 2 \<or> length c = 3) iso_codes) \<and>
   getAlpha3Codes w iso_codes =
     getAlpha3Codes w (filter (\<lambda>c. length c = 2 \<or> length c = 3) iso_codes) \<and>
   (\<exists>codes2 codes3.
      getAlpha2Codes w iso_codes =
        (Inr codes2,
         [PrintErr ''Error: '' e. c \<leftarrow> iso_codes, length c = 3, e \<leftarrow> raised (alpha_2_of w c)]) \<and>
      getAlpha3Codes w iso_codes =
        (Inr codes3,
         [PrintErr ''Error: '' e. c \<leftarrow> iso_codes, length c = 2, e \<leftarrow> raised (alpha_3_of w c)]) \<and>
      (\<forall>c \<in> set iso_codes. length c = 2 \<longrightarrow> c \<in> set codes2) \<and>
      (\<forall>c \<in> set iso_codes. length c = 3 \<longrightarrow> c \<in> set codes3) \<and>
      ((\<forall>c a. alpha_2_of w c = Inr a \<longrightarrow> length a = 2) \<longrightarrow>
         (\<forall>c. length c \<noteq> 2 \<longrightarrow> c \<notin> set codes2)) \<and>
      ((\<forall>c a. alpha_3_of w c = Inr a \<longrightarrow> length a = 3) \<longrightarrow>
         (\<forall>c. length c \<noteq> 3 \<longrightarrow> c \<notin> set codes3)))"
proof -
  have f2: "getAlpha2Codes w iso_codes =
      getAlpha2Codes w (filter (\<lambda>c. length c = 2 \<or> length c = 3) iso_codes)"
    by (simp add: getAlpha2Codes_def getAlpha2Codes_loop_filter)
  have f3: "getAlpha3Codes w iso_codes =
      getAlpha3Codes w (filter (\<lambda>c. length c = 2 \<or> length c = 3) iso_codes)"
    by (simp add: getAlpha3Codes_def getAlpha3Codes_loop_filter)
  let ?c2 = "fst (getAlpha2Codes_loop w iso_codes [] [])"
  let ?c3 = "fst (getAlpha3Codes_loop w iso_codes [] [])"
  have s2: "set ?c2 = {c \<in> set iso_codes. length c = 2} \<union>
      {a. \<exists>c \<in> set iso_codes. length c = 3 \<and> alpha_2_of w c = Inr a}"
    by (simp add: getAlpha2Codes_loop_set)
  have s3: "set ?c3 = {c \<in> set iso_codes. length c = 3} \<union>
      {a. \<exists>c \<in> set iso_codes. length c = 2 \<and> alpha_3_of w c = Inr a}"
    by (simp add: getAlpha3Codes_loop_set)
  have k2: "\<forall>c \<in> set iso_codes. length c = 2 \<longrightarrow> c \<in> set ?c2"
    unfolding s2 by blast
  have k3: "\<forall>c \<in> set iso_codes. length c = 3 \<longrightarrow> c \<in> set ?c3"
    unfolding s3 by blast
  have o2: "(\<forall>c a. alpha_2_of w c = Inr a \<longrightarrow> length a = 2) \<longrightarrow>
      (\<forall>c. length c \<noteq> 2 \<longrightarrow> c \<notin> set ?c2)"
    unfolding s2 by blast
  have o3: "(\<forall>c a. alpha_3_of w c = Inr a \<longrightarrow> length a = 3) \<longrightarrow>
      (\<forall>c. length c \<noteq> 3 \<longrightarrow> c \<notin> set ?c3)"
    unfolding s3 by blast
  from k2 k3 o2 o3 getAlpha2Codes_eq [of w iso_codes] getAlpha3Codes_eq [of w iso_codes]
  have "\<exists>codes2 codes3.
      getAlpha2Codes w iso_codes =
        (Inr codes2,
         [PrintErr ''Error: '' e. c \<leftarrow> iso_codes, length c = 3, e \<leftarrow> raised (alpha_2_of w c)]) \<and>
      getAlpha3Codes w iso_codes =
        (Inr codes3,
         [PrintErr ''Error: '' e. c \<leftarrow> iso_codes, length c = 2, e \<leftarrow> raised (alpha_3_of w c)]) \<and>
      (\<forall>c \<in> set iso_codes. length c = 2 \<longrightarrow> c \<in> set codes2) \<and>
      (\<forall>c \<in> set iso_codes. length c = 3 \<longrightarrow> c \<in> set codes3) \<and>
      ((\<forall>c a. alpha_2_of w c = Inr a \<longrightarrow> length a = 2) \<longrightarrow>
         (\<forall>c. length c \<noteq> 2 \<longrightarrow> c \<notin> set codes2)) \<and>
      ((\<forall>c a. alpha_3_of w c = Inr a \<longrightarrow> length a = 3) \<longrightarrow>
         (\<forall>c. length c \<noteq> 3 \<longrightarrow> c \<notin> set codes3))"
    by blast
  with f2 f3 show ?thesis by blast
qed

subsection \<open>The example world\<close>

lemma example_alpha_2_length: "alpha_2_of example_env c = Inr a \<Longrightarrow> length a = 2"
  by (auto simp: example_env_def example_lookup_def split: if_splits)

lemma example_alpha_3_length: "alpha_3_of example_env c = Inr a \<Longrightarrow> length a = 3"
  by (auto simp: example_env_def example_lookup_def split: if_splits)

theorem translators_skip_other_lengths_witness:
  "getAlpha2Codes example_env [''IN'', ''India'', ''CHN'', ''I''] = (Inr [''IN'', ''CN''], []) \<and>
   getAlpha3Codes example_env [''IN'', ''India'', ''CHN'', ''I''] = (Inr [''IND'', ''CHN''], []) \<and>
   ''India'' \<notin> set [''IN'', ''CN''] \<and> ''India'' \<notin> set [''IND'', ''CHN'']"
proof -
  note T = translators_skip_other_lengths [of example_env "[''IN'', ''India'', ''CHN'', ''I'']"]
  have wf2: "\<forall>c a. alpha_2_of example_env c = Inr a \<longrightarrow> length a = 2"
    using example_alpha_2_length by blast
  have wf3: "\<forall>c a. alpha_3_of example_env c = Inr a \<longrightarrow> length a = 3"
    using example_alpha_3_length by blast
  have r2: "getAlpha2Codes example_env [''IN'', ''CHN''] = (Inr [''IN'', ''CN''], [])"
    by (simp add: getAlpha2Codes_def set_add_def example_env_def example_lookup_def)
  have r3: "getAlpha3Codes example_env [''IN'', ''CHN''] = (Inr [''IND'', ''CHN''], [])"
    by (simp add: getAlpha3Codes_def set_add_def example_env_def example_lookup_def)
  have fl: "filter (\<lambda>c. length c = 2 \<or> length c = 3) [''IN'', ''India'', ''CHN'', ''I'']
      = [''IN'', ''CHN'']"
    by simp
  from T have e2: "getAlpha2Codes example_env [''IN'', ''India'', ''CHN'', ''I''] =
      (Inr [''IN'', ''CN''], [])"
    unfolding fl r2 by (rule conjunct1)
  from T have e3: "getAlpha3Codes example_env [''IN'', ''India'', ''CHN'', ''I''] =
      (Inr [''IND'', ''CHN''], [])"
    unfolding fl r3 by (elim conjE)
  from T wf2 wf3 obtain codes2 codes3 where
    g2: "getAlpha2Codes example_env [''IN'', ''India'', ''CHN'', ''I''] = (Inr codes2,
         [PrintErr ''Error: '' e. c \<leftarrow> [''IN'', ''India'', ''CHN'', ''I''], length c = 3,
            e \<leftarrow> raised (alpha_2_of example_env c)])" and
    g3: "getAlpha3Codes example_env [''IN'', ''India'', ''CHN'', ''I''] = (Inr codes3,
         [PrintErr ''Error: '' e. c \<leftarrow> [''IN'', ''India'', ''CHN'', ''I''], length c = 2,
            e \<leftarrow> raised (alpha_3_of example_env c)])" and
    n2: "\<forall>c. length c \<noteq> 2 \<longrightarrow> c \<notin> set codes2" and
    n3: "\<forall>c. length c \<noteq> 3 \<longrightarrow> c \<notin> set codes3"
    by blast
  from g2 e2 have c2: "codes2 = [''IN'', ''CN'']" by simp
  from g3 e3 have c3: "codes3 = [''IND'', ''CHN'']" by simp
  from n2 have "''India'' \<notin> set codes2" by simp
  moreover from n3 have "''India'' \<notin> set codes3" by simp
  ultimately show ?thesis using e2 e3 unfolding c2 c3 by blast
qed

text \<open>
  Claim C5 says that every code the country library does not recognise is left out of
  the result and that each dropped code has its error line. The code does otherwise:
  \<^verbatim>\<open>ZZ\<close> is no country under either naming, yet \<open>getAlpha2Codes\<close> returns it and prints
  nothing, as \<open>getAlpha3Codes\<close> does with \<^verbatim>\<open>QQQ\<close>.
\<close>

theorem translators_keep_unrecognised_counterexample:
  "alpha_2_of example_env ''ZZ'' = Inl AttributeError \<and>
   alpha_3_of example_env ''ZZ'' = Inl AttributeError \<and>
   getAlpha2Codes example_env [''ZZ''] = (Inr [''ZZ''], []) \<and>
   alpha_2_of example_env ''QQQ'' = Inl AttributeError \<and>
   alpha_3_of example_env ''QQQ'' = Inl AttributeError \<and>
   getAlpha3Codes example_env [''QQQ''] = (Inr [''QQQ''], [])"
  by (simp add: getAlpha2Codes_def getAlpha3Codes_def set_add_def example_env_def
      example_lookup_def)

text \<open>
  Claim C5, amended. For every collection of identifiers neither translator raises.
  \<open>getAlpha2Codes\<close> returns a set holding every 2-letter input as given, not checked
  against the country library, and the alpha-2 code of every 3-letter input whose
  lookup succeeds, and nothing else; each 3-letter input whose lookup fails is left
  out and has one error line; inputs of other lengths have none. \<open>getAlpha3Codes\<close> does
  the same with 2 and 3 exchanged. The result has no repetition.
\<close>

theorem translators_result:
  "\<exists>codes2 codes3.
     getAlpha2Codes w iso_codes =
       (Inr codes2,
        [PrintErr ''Error: '' e. c \<leftarrow> iso_codes, length c = 3, e \<leftarrow> raised (alpha_2_of w c)]) \<and>
     distinct codes2 \<and>
     set codes2 = {c \<in> set iso_codes. length c = 2} \<union>
                  {a. \<exists>c \<in> set iso_codes. length c = 3 \<and> alpha_2_of w c = Inr a} \<and>
     getAlpha3Codes w iso_codes =
       (Inr codes3,
        [PrintErr ''Error: '' e. c \<leftarrow> iso_codes, length c = 2, e \<leftarrow> raised (alpha_3_of w c)]) \<and>
     distinct codes3 \<and>
     set codes3 = {c \<in> set iso_codes. length c = 3} \<union>
                  {a. \<exists>c \<in> set iso_codes. length c = 2 \<and> alpha_3_of w c = Inr a}"
proof -
  have d2: "distinct (fst (getAlpha2Codes_loop w iso_codes [] []))"
    by (rule getAlpha2Codes_loop_distinct) simp
  have d3: "distinct (fst (getAlpha3Codes_loop w iso_codes [] []))"
    by (rule getAlpha3Codes_loop_distinct) simp
  have s2: "set (fst (getAlpha2Codes_loop w iso_codes [] [])) =
      {c \<in> set iso_codes. length c = 2} \<union>
      {a. \<exists>c \<in> set iso_codes. length c = 3 \<and> alpha_2_of w c = Inr a}"
    by (simp add: getAlpha2Codes_loop_set)
  have s3: "set (fst (getAlpha3Codes_loop w iso_codes [] [])) =
      {c \<in> set iso_codes. length c = 3} \<union>
      {a. \<exists>c \<in> set iso_codes. length c = 2 \<and> alpha_3_of w c = Inr a}"
    by (simp add: getAlpha3Codes_loop_set)
  from d2 d3 s2 s3 getAlpha2Codes_eq [of w iso_codes] getAlpha3Codes_eq [of w iso_codes]
  show ?thesis by blast
qed

theorem translators_result_witness:
  "getAlpha2Codes example_env [''IN'', ''CHN'', ''XYZ'', ''IN''] =
     (Inr [''IN'', ''CN''], [PrintErr ''Error: '' AttributeError]) \<and>
   set [''IN'', ''CN''] =
     {c \<in> set [''IN'', ''CHN'', ''XYZ'', ''IN'']. length c = 2} \<union>
     {a. \<exists>c \<in> set [''IN'', ''CHN'', ''XYZ'', ''IN''].
           length c = 3 \<and> alpha_2_of example_env c = Inr a} \<and>
   getAlpha3Codes example_env [''IN'', ''CHN'', ''XYZ'', ''IN''] =
     (Inr [''IND'', ''CHN'', ''XYZ''], []) \<and>
   set [''IND'', ''CHN'', ''XYZ''] =
     {c \<in> set [''IN'', ''CHN'', ''XYZ'', ''IN'']. length c = 3} \<union>
     {a. \<exists>c \<in> set [''IN'', ''CHN'', ''XYZ'', ''IN''].
           length c = 2 \<and> alpha_3_of example_env c = Inr a}"
proof -
  have e2: "getAlpha2Codes example_env [''IN'', ''CHN'', ''XYZ'', ''IN''] =
      (Inr [''IN'', ''CN''], [PrintErr ''Error: '' AttributeError])"
    by (simp add: getAlpha2Codes_def set_add_def example_env_def example_lookup_def)
  have e3: "getAlpha3Codes example_env [''IN'', ''CHN'', ''XYZ'', ''IN''] =
      (Inr [''IND'', ''CHN'', ''XYZ''], [])"
    by (simp add: getAlpha3Codes_def set_add_def example_env_def example_lookup_def)
  from translators_result [of example_env "[''IN'', ''CHN'', ''XYZ'', ''IN'']"]
  obtain codes2 codes3 where
    g2: "fst (getAlpha2Codes example_env [''IN'', ''CHN'', ''XYZ'', ''IN'']) = Inr codes2" and
    s2: "set codes2 = {c \<in> set [''IN'', ''CHN'', ''XYZ'', ''IN'']. length c = 2} \<union>
          {a. \<exists>c \<in> set [''IN'', ''CHN'', ''XYZ'', ''IN''].
                length c = 3 \<and> alpha_2_of example_env c = Inr a}" and
    g3: "fst (getAlpha3Codes example_env [''IN'', ''CHN'', ''XYZ'', ''IN'']) = Inr codes3" and
    s3: "set codes3 = {c \<in> set [''IN'', ''CHN'', ''XYZ'', ''IN'']. length c = 3} \<union>
          {a. \<exists>c \<in> set [''IN'', ''CHN'', ''XYZ'', ''IN''].
                length c = 2 \<and> alpha_3_of example_env c = Inr a}"
    by fastforce
  from g2 e2 have c2: "codes2 = [''IN'', ''CN'']" by simp
  from g3 e3 have c3: "codes3 = [''IND'', ''CHN'', ''XYZ'']" by simp
  from s2 s3 e2 e3 show ?thesis unfolding c2 c3 by blast
qed

section \<open>Properties of the indicator lookup\<close>

lemma singleton_nth0: "length xs = 1 \<Longrightarrow> xs = [xs ! 0]"
  by (cases xs) auto

lemma getIndicatorIndexes_loop_eq:
  "getIndicatorIndexes_loop tbl names idxs lg =
     (idxs @ [fst r. n \<leftarrow> names, r \<leftarrow> matching_rows tbl n, length (matching_rows tbl n) = 1],
      lg @ [Print (''Indicator name not found / duplicated: '' @ n).
              n \<leftarrow> names, length (matching_rows tbl n) \<noteq> 1])"
proof (induction names arbitrary: idxs lg)
  case Nil
  show ?case by simp
next
  case (Cons n names)
  show ?case
  proof (cases "length (matching_rows tbl n) = 1")
    case True
    then have one: "matching_rows tbl n = [matching_rows tbl n ! 0]"
      by (rule singleton_nth0)
    have "concat (map (\<lambda>r. if length (matching_rows tbl n) = 1 then [fst r] else [])
            (matching_rows tbl n)) = [fst (matching_rows tbl n ! 0)]"
      using True by (subst (2) one) simp
    with True Cons show ?thesis
      by (simp add: Let_def matching_rows_def [symmetric])
  next
    case False
    with Cons show ?thesis
      by (simp add: Let_def matching_rows_def [symmetric])
  qed
qed

text \<open>
  Claim C6. For every frequency and every list of names, \<open>getIndicatorIndexes\<close> does not
  raise and returns, in the order of the names, the index of the matching row of each
  name that exactly one row of the table of that frequency holds; every other name (no
  row, or more than one) gives no index and one printed line.
\<close>

theorem getIndicatorIndexes_partial:
  "getIndicatorIndexes self frequency names =
     (Inr [fst r. n \<leftarrow> names, r \<leftarrow> matching_rows (lut self frequency) n,
             length (matching_rows (lut self frequency) n) = 1],
      [Print (''Indicator name not found / duplicated: '' @ n).
         n \<leftarrow> names, length (matching_rows (lut self frequency) n) \<noteq> 1])"
  by (simp add: getIndicatorIndexes_def getIndicatorIndexes_loop_eq)

theorem getIndicatorIndexes_partial_witness:
  "getIndicatorIndexes example_client annual
     [''Access to electricity'', ''GDP'', ''Exports, percent of GDP''] =
     (Inr [5, 2], [Print ''Indicator name not found / duplicated: GDP''])"
  using getIndicatorIndexes_partial [of example_client annual
      "[''Access to electricity'', ''GDP'', ''Exports, percent of GDP'']"]
  by (simp add: matching_rows_def example_client_def)





text \<open>
  The probe itself: with any index to probe, its first call of \<open>getUri\<close> raises, so it
  returns no table; with none, the table is empty.
\<close>

lemma getIndicatorLookup_raises:
  "1 < max_index \<Longrightarrow> getIndicatorLookup w frequency max_index = (Inl TypeError, [])"
  by (simp add: getIndicatorLookup_def getUri_without_frequency_def upto.simps)

lemma getIndicatorLookup_empty:
  "max_index \<le> 1 \<Longrightarrow> getIndicatorLookup w frequency max_index = (Inr [], [])"
  by (simp add: getIndicatorLookup_def)

section \<open>Properties of getUri\<close>

lemma indicator_indexes_eq:
  "indicator_indexes self frequency kw =
     (case indicators kw of
        Some names \<Rightarrow>
          (Inr (Some (projr (fst (getIndicatorIndexes self frequency names)))),
           snd (getIndicatorIndexes self frequency names))
      | None \<Rightarrow> (Inr (indexes kw), []))"
  by (simp add: indicator_indexes_def getIndicatorIndexes_def split: option.splits prod.splits)

lemma str_int_1: "str_int 1 = ''1''"
  by (simp add: str_int_def str_nat.simps digit_char_def)

lemma str_int_2: "str_int 2 = ''2''"
  by (simp add: str_int_def str_nat.simps digit_char_def)

subsection \<open>Runs in the example world\<close>

lemma example_codes_monthly:
  "country_codes example_env example_client monthly [''IN'', ''CN''] = (Inr (IdList [101, 45]), [])"
  by code_simp

lemma example_codes_annual:
  "country_codes example_env example_client annual [''IND'', ''CHN''] =
     (Inr (CodeSet [''IN'', ''CN'']), [])"
  by code_simp

lemma example_indexes_monthly:
  "indicator_indexes example_client monthly scenario_monthly = (Inr (Some [7]), [])"
  by code_simp

lemma example_indexes_annual:
  "indicator_indexes example_client annual scenario_annual = (Inr (Some [2, 5]), [])"
  by code_simp

lemma str_int_1960: "str_int 1960 = ''1960''"
  by (simp add: str_int_def str_nat.simps digit_char_def)

lemma str_int_2020: "str_int 2020 = ''2020''"
  by (simp add: str_int_def str_nat.simps digit_char_def)


lemma example_indexes_none:
  "indicator_indexes example_client annual no_options = (Inr None, [])"
  by code_simp

lemma example_codes_one:
  "country_codes example_env example_client annual [''IN''] = (Inr (CodeSet [''IN'']), [])"
  by code_simp


subsection \<open>Empty codes or indexes\<close>



subsection \<open>The text of the URI\<close>

text \<open>
  Claim C7. When the resolved codes and the resolved indexes are both non-empty,
  \<open>getUri\<close> returns the root followed by \<^verbatim>\<open>?tp=\<close>, 1 for an annual and 2 for a monthly
  request, \<^verbatim>\<open>&ind=\<close> and the indexes joined by commas, \<^verbatim>\<open>&cnt=\<close> and the codes joined by
  commas, \<^verbatim>\<open>&prd=\<close> and the period, \<^verbatim>\<open>&uid=\<close> and \<^verbatim>\<open>&uidc=\<close> with the credentials. The
  period is the given one, else start year, colon, end year, with 1960 and the current
  year where one is not given. When names are given the indexes are the resolved
  names, whatever explicit indexes were passed; only without names are the explicit
  indexes used.
\<close>

theorem getUri_format:
  assumes "country_codes w self frequency iso_codes = (Inr cds, lg1)"
    and "0 < len_codes cds"
    and "indicator_indexes self frequency kw = (Inr (Some ix), lg2)"
    and "ix \<noteq> []"
  shows "getUri w self iso_codes frequency kw =
           (Inr (Some
              (root self @ ''?tp='' @ (case frequency of annual \<Rightarrow> ''1'' | monthly \<Rightarrow> ''2'') @
               ''&ind='' @ join '','' (map str_int ix) @
               ''&cnt='' @ join '','' (str_codes w cds) @
               ''&prd='' @
                 (case period kw of
                    Some p \<Rightarrow> p
                  | None \<Rightarrow>
                      str_int (case start_year kw of Some y \<Rightarrow> y | None \<Rightarrow> 1960) @ '':'' @
                      str_int (case end_year kw of Some y \<Rightarrow> y | None \<Rightarrow> now_year w)) @
               ''&uid='' @ str_scalar (uid self) @
               ''&uidc='' @ str_scalar (uidc self))),
            lg1 @ lg2) \<and>
         (\<forall>names. indicators kw = Some names \<longrightarrow>
            getIndicatorIndexes self frequency names = (Inr ix, lg2)) \<and>
         (indicators kw = None \<longrightarrow> indexes kw = Some ix \<and> lg2 = [])"
proof -
  have tp: "str_int (frequency_value frequency) =
      (case frequency of annual \<Rightarrow> ''1'' | monthly \<Rightarrow> ''2'')"
    by (cases frequency) (simp_all add: str_int_1 str_int_2)
  have uri: "getUri w self iso_codes frequency kw =
      (Inr (Some (format_uri w self frequency ix cds (period_string w kw))), lg1 @ lg2)"
    using assms by (simp add: getUri_def)
  have names: "\<forall>names. indicators kw = Some names \<longrightarrow>
      getIndicatorIndexes self frequency names = (Inr ix, lg2)"
    using assms(3)
    by (auto simp: indicator_indexes_def split: option.splits prod.splits sum.splits)
  have direct: "indicators kw = None \<longrightarrow> indexes kw = Some ix \<and> lg2 = []"
    using assms(3) by (auto simp: indicator_indexes_def)
  from uri names direct show ?thesis
    by (simp add: format_uri_def period_string_def tp)
qed


theorem getUri_format_witness:
  "getUri example_env example_client [''IN'', ''CN''] monthly scenario_monthly =
     (Inr (Some (''https://www.theglobaleconomy.com/data_export_api.php'' @
                 ''?tp=2&ind=7&cnt=101,45&prd=latest&uid=90902&uidc=0318f527'')), []) \<and>
   getUri example_env example_client [''IND'', ''CHN''] annual scenario_annual =
     (Inr (Some (''https://www.theglobaleconomy.com/data_export_api.php'' @
                 ''?tp=1&ind=2,5&cnt=IN,CN&prd=1960:2020&uid=90902&uidc=0318f527'')), [])"
proof -
  have n: "str_int 7 = ''7'' \<and> str_int 101 = ''101'' \<and> str_int 45 = ''45'' \<and>
      str_int 5 = ''5'' \<and> str_int 90902 = ''90902''"
    by (simp add: str_int_def str_nat.simps digit_char_def)
  have m: "getUri example_env example_client [''IN'', ''CN''] monthly scenario_monthly =
     (Inr (Some (''https://www.theglobaleconomy.com/data_export_api.php'' @
                 ''?tp=2&ind=7&cnt=101,45&prd=latest&uid=90902&uidc=0318f527'')), [])"
    using getUri_format [OF example_codes_monthly _ example_indexes_monthly]
    by (simp add: n example_client_def scenario_monthly_def no_options_def)
  have a: "getUri example_env example_client [''IND'', ''CHN''] annual scenario_annual =
     (Inr (Some (''https://www.theglobaleconomy.com/data_export_api.php'' @
                 ''?tp=1&ind=2,5&cnt=IN,CN&prd=1960:2020&uid=90902&uidc=0318f527'')), [])"
    using getUri_format [OF example_codes_annual _ example_indexes_annual]
    by (simp add: n str_int_2 str_int_1960 str_int_2020 example_client_def example_env_def
        scenario_annual_def no_options_def)
  from m a show ?thesis by simp
qed

subsection \<open>Monthly requests: the search of the country table\<close>

lemma split_on_no_sep: "sep \<notin> set s \<Longrightarrow> split_on sep s = [s]"
  by (induction s) auto

lemma split_on_append_sep:
  "sep \<notin> set a \<Longrightarrow> split_on sep (a @ sep # rest) = a # split_on sep rest"
  by (induction a) auto

lemma split_on_join:
  "xs \<noteq> [] \<Longrightarrow> \<forall>x \<in> set xs. sep \<notin> set x \<Longrightarrow> split_on sep (join [sep] xs) = xs"
proof (induction xs)
  case Nil
  then show ?case by simp
next
  case (Cons x xs)
  show ?case
  proof (cases xs)
    case Nil
    with Cons.prems show ?thesis by (simp add: split_on_no_sep)
  next
    case (Cons y ys)
    with Cons.prems Cons.IH show ?thesis by (simp add: split_on_append_sep)
  qed
qed

lemma set_join_subset: "set (join sep xs) \<subseteq> set sep \<union> \<Union> (set ` set xs)"
  by (induction sep xs rule: join.induct) auto

lemma bar_special: "re_special (CHR ''|'')"
  by (simp add: re_special_def)

lemma re_compile_literals:
  assumes plain: "\<forall>a \<in> set alts. \<forall>c \<in> set a. \<not> re_special c"
  shows "re_compile w (join ''|'' alts) =
           Inr (\<lambda>cell. alts = [] \<or> (\<exists>a \<in> set alts. sublist a cell))"
proof -
  have ok: "\<forall>c \<in> set (join ''|'' alts). c = CHR ''|'' \<or> \<not> re_special c"
    using plain set_join_subset [of "''|''" alts] by auto
  have alt: "(\<exists>a \<in> set (split_on (CHR ''|'') (join ''|'' alts)). sublist a cell) =
      (alts = [] \<or> (\<exists>a \<in> set alts. sublist a cell))" for cell
  proof (cases "alts = []")
    case True
    then show ?thesis by simp
  next
    case False
    moreover from plain bar_special have "\<forall>a \<in> set alts. CHR ''|'' \<notin> set a" by blast
    ultimately have "split_on (CHR ''|'') (join ''|'' alts) = alts"
      by (rule split_on_join)
    with False show ?thesis by simp
  qed
  from ok show ?thesis by (simp add: re_compile_def alt)
qed


text \<open>
  Claim C9. For a monthly request the country ids are found by search, not by exact
  lookup: with 3-letter codes free of the special characters of regular expressions,
  \<open>getUri\<close> keeps, in table order, the \<^verbatim>\<open>id\<close> of every row of the country table whose
  \<^verbatim>\<open>code\<close> cell has one of the codes as a contiguous part. When no 3-letter code was
  resolved the pattern is the empty string, every row is kept and the ids are those of
  the whole table, so that \<open>getUri\<close> builds a request for all of them.
\<close>

theorem monthly_codes_by_search:
  assumes iter: "\<forall>xs. set (set_iter w xs) = set xs"
    and a3: "getAlpha3Codes w iso_codes = (Inr alpha3_codes, lg)"
    and plain: "\<forall>a \<in> set alpha3_codes. \<forall>c \<in> set a. \<not> re_special c"
    and ids: "ids = map snd
                (if alpha3_codes = [] then lut_api self
                 else filter (\<lambda>r. \<exists>a \<in> set alpha3_codes. sublist a (fst r)) (lut_api self))"
  shows "country_codes w self monthly iso_codes = (Inr (IdList ids), lg) \<and>
         (\<forall>kw ix lg2.
            ids \<noteq> [] \<and> indicator_indexes self monthly kw = (Inr (Some ix), lg2) \<and> ix \<noteq> [] \<longrightarrow>
            getUri w self iso_codes monthly kw =
              (Inr (Some (format_uri w self monthly ix (IdList ids) (period_string w kw))),
               lg @ lg2))"
proof -
  from iter have s: "set (set_iter w alpha3_codes) = set alpha3_codes" by blast
  then have e: "(set_iter w alpha3_codes = []) = (alpha3_codes = [])"
    by (metis set_empty)
  from plain s have "\<forall>a \<in> set (set_iter w alpha3_codes). \<forall>c \<in> set a. \<not> re_special c"
    by simp
  then have "re_compile w (join ''|'' (set_iter w alpha3_codes)) =
      Inr (\<lambda>cell. set_iter w alpha3_codes = [] \<or>
                   (\<exists>a \<in> set (set_iter w alpha3_codes). sublist a cell))"
    by (rule re_compile_literals)
  then have rc: "re_compile w (join ''|'' (set_iter w alpha3_codes)) =
      Inr (\<lambda>cell. alpha3_codes = [] \<or> (\<exists>a \<in> set alpha3_codes. sublist a cell))"
    by (simp only: s e)
  have "country_codes w self monthly iso_codes =
      (Inr (IdList (map snd (filter
         (\<lambda>r. alpha3_codes = [] \<or> (\<exists>a \<in> set alpha3_codes. sublist a (fst r)))
         (lut_api self)))), lg)"
    by (simp add: country_codes_def a3 rc)
  then have cc: "country_codes w self monthly iso_codes = (Inr (IdList ids), lg)"
    unfolding ids by (cases "alpha3_codes = []") simp_all
  have "getUri w self iso_codes monthly kw =
      (Inr (Some (format_uri w self monthly ix (IdList ids) (period_string w kw))), lg @ lg2)"
    if "ids \<noteq> []" and "indicator_indexes self monthly kw = (Inr (Some ix), lg2)" and "ix \<noteq> []"
    for kw ix lg2
    using that cc by (simp add: getUri_def)
  with cc show ?thesis by blast
qed

lemma example_set_iter: "\<forall>xs. set (set_iter example_env xs) = set xs"
  by (simp add: example_env_def)

lemma example_alpha3_india:
  "getAlpha3Codes example_env [''IN''] = (Inr [''IND''], [])"
  by (simp add: getAlpha3Codes_def set_add_def example_env_def example_lookup_def)

lemma example_alpha3_unknown:
  "getAlpha3Codes example_env [''India'', ''ZZ''] =
     (Inr [], [PrintErr ''Error: '' AttributeError])"
  by (simp add: getAlpha3Codes_def set_add_def example_env_def example_lookup_def)

lemma plain_IND: "\<forall>a \<in> set [''IND'']. \<forall>c \<in> set a. \<not> re_special c"
  by (simp add: re_special_def)


theorem monthly_codes_by_search_witness:
  "country_codes example_env substring_client monthly [''IN''] = (Inr (IdList [101, 250]), []) \<and>
   country_codes example_env substring_client monthly [''India'', ''ZZ''] =
     (Inr (IdList [101, 250, 45]), [PrintErr ''Error: '' AttributeError]) \<and>
   getUri example_env substring_client [''India'', ''ZZ''] monthly
       (no_options \<lparr> indexes := Some [3], period := Some ''latest'' \<rparr>) =
     (Inr (Some (''https://www.theglobaleconomy.com/data_export_api.php'' @
                 ''?tp=2&ind=3&cnt=101,250,45&prd=latest&uid=90902&uidc=0318f527'')),
      [PrintErr ''Error: '' AttributeError])"
proof -
  have s1: "sublist ''IND'' ''IND''" by simp
  have s2: "sublist ''IND'' ''B-IND''"
    using sublist_appendI [of "''IND''" "''B-''" "[]"] by simp
  have s3: "\<not> sublist ''IND'' ''CHN''" by (simp add: sublist_code)
  have i1: "[101, 250] = map snd
      (if [''IND''] = [] then lut_api substring_client
       else filter (\<lambda>r. \<exists>a \<in> set [''IND'']. sublist a (fst r)) (lut_api substring_client))"
    by (simp add: substring_client_def example_client_def s1 s2 s3)
  have i2: "[101, 250, 45] = map snd
      (if ([]::string list) = [] then lut_api substring_client
       else filter (\<lambda>r. \<exists>a \<in> set []. sublist a (fst r)) (lut_api substring_client))"
    by (simp add: substring_client_def example_client_def)
  have pl: "\<forall>a \<in> set ([]::string list). \<forall>c \<in> set a. \<not> re_special c" by simp
  note A = monthly_codes_by_search [OF example_set_iter example_alpha3_india plain_IND i1]
  note B = monthly_codes_by_search [OF example_set_iter example_alpha3_unknown pl i2]
  have ix: "indicator_indexes substring_client monthly
      (no_options \<lparr> indexes := Some [3], period := Some ''latest'' \<rparr>) = (Inr (Some [3]), [])"
    by (simp add: indicator_indexes_def no_options_def)
  have n: "str_int 2 = ''2'' \<and> str_int 3 = ''3'' \<and> str_int 101 = ''101'' \<and>
      str_int 250 = ''250'' \<and> str_int 45 = ''45'' \<and> str_int 90902 = ''90902''"
    by (simp add: str_int_def str_nat.simps digit_char_def)
  from B ix have "getUri example_env substring_client [''India'', ''ZZ''] monthly
       (no_options \<lparr> indexes := Some [3], period := Some ''latest'' \<rparr>) =
     (Inr (Some (format_uri example_env substring_client monthly [3] (IdList [101, 250, 45])
        (period_string example_env (no_options \<lparr> indexes := Some [3], period := Some ''latest'' \<rparr>)))),
      [PrintErr ''Error: '' AttributeError] @ [])"
    by blast
  then have "getUri example_env substring_client [''India'', ''ZZ''] monthly
       (no_options \<lparr> indexes := Some [3], period := Some ''latest'' \<rparr>) =
     (Inr (Some (''https://www.theglobaleconomy.com/data_export_api.php'' @
                 ''?tp=2&ind=3&cnt=101,250,45&prd=latest&uid=90902&uidc=0318f527'')),
      [PrintErr ''Error: '' AttributeError])"
    by (simp add: format_uri_def period_string_def n no_options_def substring_client_def
        example_client_def)
  with A B show ?thesis by blast
qed

section \<open>Properties of postRequest\<close>

text \<open>
  Claim C4. For every URI \<open>postRequest\<close> hands no exception to its caller. When the
  request raises, it returns \<^verbatim>\<open>None\<close> and prints one line whose prefix names the
  category: HTTP error, connection error, timeout, request error. An answer with an
  error status is an HTTP error. An answer whose body is not well-formed XML gives
  \<^verbatim>\<open>None\<close>, and an answer whose body is well-formed gives the mapping it parses to.
\<close>

theorem postRequest_outcomes:
  "(\<exists>data lg. postRequest w uri = (Inr data, lg)) \<and>
   (\<forall>e. requests_get w uri = Inl e \<longrightarrow>
      postRequest w uri = (Inr None, [PrintErr (except_clause e) e])) \<and>
   except_clause HTTPError = ''Http Error: '' \<and>
   except_clause ConnectionError = ''Connection Error: '' \<and>
   except_clause Timeout = ''Timeout Error: '' \<and>
   except_clause RequestException = ''Request Error: '' \<and>
   (\<forall>status body. requests_get w uri = Inr (status, body) \<and> 400 \<le> status \<and> status < 600 \<longrightarrow>
      postRequest w uri = (Inr None, [PrintErr ''Http Error: '' HTTPError])) \<and>
   (\<forall>status body. requests_get w uri = Inr (status, body) \<and> \<not> (400 \<le> status \<and> status < 600) \<and>
        \<not> fromstring_ok w body \<longrightarrow>
      postRequest w uri = (Inr None, [])) \<and>
   (\<forall>status body d. requests_get w uri = Inr (status, body) \<and> \<not> (400 \<le> status \<and> status < 600) \<and>
        fromstring_ok w body \<and> xmltodict_parse w body = Inr d \<longrightarrow>
      postRequest w uri = (Inr (Some d), []))"
proof -
  have total: "\<exists>data lg. postRequest w uri = (Inr data, lg)"
    by (simp add: postRequest_def split: sum.splits)
  have fail: "\<forall>e. requests_get w uri = Inl e \<longrightarrow>
      postRequest w uri = (Inr None, [PrintErr (except_clause e) e])"
    by (simp add: postRequest_def postRequest_try_def)
  have status: "\<forall>status body. requests_get w uri = Inr (status, body) \<and> 400 \<le> status \<and>
      status < 600 \<longrightarrow> postRequest w uri = (Inr None, [PrintErr ''Http Error: '' HTTPError])"
    by (simp add: postRequest_def postRequest_try_def raise_for_status_def)
  have noxml: "\<forall>status body. requests_get w uri = Inr (status, body) \<and>
      \<not> (400 \<le> status \<and> status < 600) \<and> \<not> fromstring_ok w body \<longrightarrow>
      postRequest w uri = (Inr None, [])"
    by (auto simp: postRequest_def postRequest_try_def raise_for_status_def isXml_def)
  have xml: "\<forall>status body d. requests_get w uri = Inr (status, body) \<and>
      \<not> (400 \<le> status \<and> status < 600) \<and> fromstring_ok w body \<and>
      xmltodict_parse w body = Inr d \<longrightarrow> postRequest w uri = (Inr (Some d), [])"
    by (auto simp: postRequest_def postRequest_try_def raise_for_status_def isXml_def)
  from total fail status noxml xml show ?thesis by simp
qed

theorem postRequest_outcomes_witness:
  "postRequest example_env (Some ''http://x'') =
     (Inr None, [PrintErr ''Connection Error: '' ConnectionError]) \<and>
   postRequest (answering_env 404 ''<a/>'' True) (Some ''http://x'') =
     (Inr None, [PrintErr ''Http Error: '' HTTPError]) \<and>
   postRequest (answering_env 200 ''no xml'' False) (Some ''http://x'') = (Inr None, []) \<and>
   postRequest (answering_env 200 ''<a/>'' True) (Some ''http://x'') =
     (Inr (Some (PDict [(''a'', PNone)])), [])"
proof -
  have g0: "requests_get example_env (Some ''http://x'') = Inl ConnectionError"
    by (simp add: example_env_def)
  have g: "requests_get (answering_env st b ok) (Some ''http://x'') = Inr (st, b)" for st b ok
    by (simp add: answering_env_def)
  have f: "fromstring_ok (answering_env st b ok) b = ok" for st b ok
    by (simp add: answering_env_def)
  have p: "xmltodict_parse (answering_env st b ok) b = Inr (PDict [(''a'', PNone)])"
    for st b ok
    by (simp add: answering_env_def)
  from postRequest_outcomes [of example_env "Some ''http://x''"] g0
  have a: "postRequest example_env (Some ''http://x'') =
      (Inr None, [PrintErr ''Connection Error: '' ConnectionError])"
    by simp
  from postRequest_outcomes [of "answering_env 404 ''<a/>'' True" "Some ''http://x''"]
    g [of 404 "''<a/>''" True]
  have b: "postRequest (answering_env 404 ''<a/>'' True) (Some ''http://x'') =
      (Inr None, [PrintErr ''Http Error: '' HTTPError])"
    by simp
  from postRequest_outcomes [of "answering_env 200 ''no xml'' False" "Some ''http://x''"]
    g [of 200 "''no xml''" False] f [of 200 "''no xml''" False]
  have c: "postRequest (answering_env 200 ''no xml'' False) (Some ''http://x'') = (Inr None, [])"
    by simp
  from postRequest_outcomes [of "answering_env 200 ''<a/>'' True" "Some ''http://x''"]
    g [of 200 "''<a/>''" True] f [of 200 "''<a/>''" True] p [of 200 "''<a/>''" True]
  have d: "postRequest (answering_env 200 ''<a/>'' True) (Some ''http://x'') =
      (Inr (Some (PDict [(''a'', PNone)])), [])"
    by simp
  from a b c d show ?thesis by simp
qed

section \<open>Operations that raise\<close>

text \<open>
  Claim C2 says that no public operation hands an exception to its caller. Two of them
  do. \<open>getUri\<close> with a recognised country and neither names nor indexes evaluates
  \<^verbatim>\<open>len(None)\<close> and raises \<^verbatim>\<open>TypeError\<close>; and \<open>convertToDataFrame\<close> given \<^verbatim>\<open>None\<close>, which is
  what \<open>postRequest\<close> returns after any failure, subscripts it and raises \<^verbatim>\<open>TypeError\<close>.
\<close>

theorem getUri_and_convertToDataFrame_raise:
  "getUri example_env example_client [''IN''] annual no_options = (Inl TypeError, []) \<and>
   postRequest example_env None = (Inr None, [PrintErr ''Connection Error: '' ConnectionError]) \<and>
   convertToDataFrame PNone = (Inl TypeError, [])"
proof -
  have "getUri example_env example_client [''IN''] annual no_options = (Inl TypeError, [])"
    using example_codes_one example_indexes_none by (simp add: getUri_def)
  moreover have "postRequest example_env None =
      (Inr None, [PrintErr ''Connection Error: '' ConnectionError])"
    by (simp add: postRequest_def postRequest_try_def example_env_def)
  moreover have "convertToDataFrame PNone = (Inl TypeError, [])"
    by (simp add: convertToDataFrame_def)
  ultimately show ?thesis by simp
qed

text \<open>
  Claim C3 says that an empty or malformed payload yields \<^verbatim>\<open>None\<close>. The payload is read
  outside every \<^verbatim>\<open>try\<close>: \<^verbatim>\<open>None\<close>, a mapping without \<^verbatim>\<open>ge:data\<close>, an empty \<^verbatim>\<open>ge:data\<close> and
  an empty country entry all make \<open>convertToDataFrame\<close> raise.
\<close>

theorem convertToDataFrame_malformed_raises:
  "convertToDataFrame PNone = (Inl TypeError, []) \<and>
   convertToDataFrame (PDict []) = (Inl KeyError, []) \<and>
   convertToDataFrame (PDict [(''ge:data'', PNone)]) = (Inl TypeError, []) \<and>
   convertToDataFrame (PDict [(''ge:data'', PDict [(''ge:country'', PNone)])]) =
     (Inl TypeError, [])"
  by (simp add: convertToDataFrame_def)

section \<open>Properties of convertToDataFrame on well-shaped payloads\<close>

text \<open>
  On a payload that has \<^verbatim>\<open>ge:data\<close> and \<^verbatim>\<open>ge:country\<close> and whose country entries are
  mappings, the conversion does what is said of it: one row for every element that
  parses, one printed line for every element that does not, \<^verbatim>\<open>None\<close> exactly when there
  is no row, and the fields of a row are the entry's \<^verbatim>\<open>@id\<close>, the date of the year and
  the month (1 when absent) at day 1, the indicator and the value.
\<close>

lemma elements_loop_eq:
  "elements_loop schema els records lg =
     (records @ [r. el \<leftarrow> els, r \<leftarrow> returned (parse_element schema el)],
      lg @ [PrintErr ''XML Read Error: '' e. el \<leftarrow> els, e \<leftarrow> raised (parse_element schema el)])"
  by (induction els arbitrary: records lg)
     (auto simp: returned_def raised_def split: sum.splits)

lemma schemas_loop_dicts:
  assumes "\<forall>s \<in> set schemas. is_dict s"
  shows "schemas_loop schemas records lg =
     (Inr (records @ [r. s \<leftarrow> schemas, el \<leftarrow> elements_of s, r \<leftarrow> returned (parse_element s el)]),
      lg @ [PrintErr ''XML Read Error: '' e.
              s \<leftarrow> schemas, el \<leftarrow> elements_of s, e \<leftarrow> raised (parse_element s el)])"
  using assms
proof (induction schemas arbitrary: records lg)
  case Nil
  show ?case by simp
next
  case (Cons s schemas)
  then obtain kvs where s: "s = PDict kvs" by (cases s) auto
  from Cons.prems have rest: "\<forall>s \<in> set schemas. is_dict s" by simp
  show ?case
  proof (cases "map_of kvs ''ge:element''")
    case None
    then have "''ge:element'' \<notin> fst ` set kvs" by (simp add: map_of_eq_None_iff)
    with None s Cons.IH [OF rest] show ?thesis
      by (simp add: elements_of_def)
  next
    case (Some els)
    then have "''ge:element'' \<in> fst ` set kvs"
      by (metis map_of_eq_None_iff option.distinct(1))
    with Some s Cons.IH [OF rest] show ?thesis
      by (simp add: elements_of_def elements_loop_eq)
  qed
qed

lemma convertToDataFrame_rows:
  assumes "subscript data ''ge:data'' = Inr d"
    and "subscript d ''ge:country'' = Inr c"
    and "\<forall>s \<in> set (as_list c). is_dict s"
    and "rows = [r. s \<leftarrow> as_list c, el \<leftarrow> elements_of s, r \<leftarrow> returned (parse_element s el)]"
  shows "convertToDataFrame data =
     (Inr (if rows = [] then None else Some rows),
      [PrintErr ''XML Read Error: '' e.
         s \<leftarrow> as_list c, el \<leftarrow> elements_of s, e \<leftarrow> raised (parse_element s el)])"
  using assms(1,2) schemas_loop_dicts [OF assms(3), of "[]" "[]"]
  by (simp add: convertToDataFrame_def assms(4))

lemma parse_element_fields:
  assumes "parse_element schema element = Inr r"
  shows "subscript schema ''@id'' = Inr (row_id r) \<and>
         subscript element ''ge:indicator'' = Inr (row_indicator r) \<and>
         subscript element ''ge:value'' = Inr (row_value r) \<and>
         (\<exists>yv mv y m. py_get element ''ge:year'' PNone = Inr yv \<and> py_int yv = Inr y \<and>
            py_get element ''ge:month'' (PInt 1) = Inr mv \<and> py_int mv = Inr m \<and>
            row_date r = (y, m, 1))"
  using assms
  by (auto simp: parse_element_def py_date_def split: sum.splits if_splits)

lemma int_of_str_2020: "int_of_str ''2020'' = Inr 2020"
  by (simp add: int_of_str_def strip_def is_space_def valid_digits_def is_digit_def
      decimal_def digit_value_def)

lemma convertToDataFrame_one_element:
  "convertToDataFrame one_element_payload =
     (Inr (Some [\<lparr>row_id = PStr ''IN'', row_date = (2020, 1, 1),
                  row_indicator = PStr ''Exports'', row_value = PStr ''18.7''\<rparr>]), [])"
  by (simp add: convertToDataFrame_def one_element_payload_def parse_element_def
      int_of_str_2020 py_date_def c_int_def)

end
